theory Spec2Isabelle
  imports Main
begin

section \<open>JavaScript strings and numbers\<close>

text \<open>
  Strings are lists of characters read as code points below 256. A thrown \<open>Error\<close> is
  a value carrying its message; a function that may throw returns \<open>error + 'a\<close>, with
  \<open>Inl\<close> for the throw.
\<close>

datatype error = Error string

definition isDecimalDigit :: "char \<Rightarrow> bool" where
  "isDecimalDigit c = (c \<in> set ''0123456789'')"

definition isHexDigit :: "char \<Rightarrow> bool" where
  "isHexDigit c = (c \<in> set ''0123456789abcdefABCDEF'')"

text \<open>White space as \<open>String.prototype.trim\<close> and \<open>parseInt\<close> skip it: TAB, LF, VT, FF,
  CR, SP and NBSP are the white-space code points below 256.\<close>

definition isWhiteSpace :: "char \<Rightarrow> bool" where
  "isWhiteSpace c = ((of_char c :: nat) \<in> set [9, 10, 11, 12, 13, 32, 160])"

definition trim :: "string \<Rightarrow> string" where
  "trim s = rev (dropWhile isWhiteSpace (rev (dropWhile isWhiteSpace s)))"

definition digitValue :: "char \<Rightarrow> nat" where
  "digitValue c = of_char c - 48"

definition decimalValue :: "string \<Rightarrow> nat" where
  "decimalValue ds = foldl (\<lambda>a c. 10 * a + digitValue c) 0 ds"

definition digitChar :: "nat \<Rightarrow> char" where
  "digitChar d = ''0123456789'' ! d"

text \<open>\<open>BigInt.prototype.toString()\<close> of a non-negative value, and the template
  literal of an integral number.\<close>

fun decimalString :: "nat \<Rightarrow> string" where
  "decimalString n =
     (if n < 10 then [digitChar n] else decimalString (n div 10) @ [digitChar (n mod 10)])"

definition intString :: "int \<Rightarrow> string" where
  "intString i = (if i < 0 then CHR ''-'' # decimalString (nat (- i)) else decimalString (nat i))"

text \<open>\<open>s.split(sep)\<close> for a one-character separator: every component, empty ones too.\<close>

fun split :: "char \<Rightarrow> string \<Rightarrow> string list" where
  "split sep [] = [[]]"
| "split sep (c # cs) =
     (if c = sep then [] # split sep cs
      else (case split sep cs of w # ws \<Rightarrow> (c # w) # ws | [] \<Rightarrow> [[c]]))"

text \<open>
  A JavaScript number that came from an integer numeral. Integers of magnitude up to
  \<open>2^53\<close> are doubles themselves; beyond that the platform rounds, and the rounding is a
  parameter \<open>rnd\<close> (\<open>None\<close> is an infinity).
\<close>

datatype number = NaN | Infinity | Num int

definition maxExact :: int where
  "maxExact = 2 ^ 53"

definition toNumber :: "(int \<Rightarrow> int option) \<Rightarrow> int \<Rightarrow> number" where
  "toNumber rnd v =
     (if \<bar>v\<bar> \<le> maxExact then Num v
      else (case rnd v of None \<Rightarrow> Infinity | Some d \<Rightarrow> Num d))"

text \<open>\<open>Number.parseInt(s, 10)\<close>: leading white space is skipped, one sign is read, then
  the longest run of decimal digits; whatever follows is ignored, and no digit at all
  gives \<open>NaN\<close>.\<close>

definition parseInt10 :: "(int \<Rightarrow> int option) \<Rightarrow> string \<Rightarrow> number" where
  "parseInt10 rnd s =
     (let t = dropWhile isWhiteSpace s;
          sign = (case t of c # _ \<Rightarrow> if c = CHR ''-'' then - 1 else 1 | [] \<Rightarrow> (1 :: int));
          u = (case t of c # r \<Rightarrow> if c = CHR ''-'' \<or> c = CHR ''+'' then r else t | [] \<Rightarrow> t);
          z = takeWhile isDecimalDigit u
      in if z = [] then NaN else toNumber rnd (sign * int (decimalValue z)))"

fun Number_isFinite :: "number \<Rightarrow> bool" where
  "Number_isFinite (Num _) = True"
| "Number_isFinite _ = False"

section \<open>Data model (types.ts)\<close>

record RouterConfig =
  network :: string
  asset :: string
  payTo :: string
  facilitatorSigner :: string
  tokenName :: string
  tokenVersion :: string
  paymentHeader :: string

record CachedPermit =
  paymentSig :: string
  deadline :: int
  maxValue :: string
  nonce :: string
  network :: string
  asset :: string
  payTo :: string

record SignPermitParams =
  privateKey :: string
  permitCap :: string
  routerConfig :: RouterConfig

record X402EnvConfig =
  privateKey :: string
  routerUrl :: string
  network :: string
  permitCap :: string
  paymentHeader :: string
  modelId :: string
  modelName :: string

text \<open>Several of these records share field names, as the interfaces do; a selector is
  written with its record's name wherever more than one could be meant.\<close>

section \<open>Permit signer (sign-permit.ts)\<close>

definition PRIVATE_KEY_REGEX :: "string \<Rightarrow> bool" where
  "PRIVATE_KEY_REGEX v =
     (case v of
        c0 # c1 # rest \<Rightarrow>
          c0 = CHR ''0'' \<and> c1 = CHR ''x'' \<and> length rest = 64 \<and> list_all isHexDigit rest
      | _ \<Rightarrow> False)"

definition ADDRESS_REGEX :: "string \<Rightarrow> bool" where
  "ADDRESS_REGEX v =
     (case v of
        c0 # c1 # rest \<Rightarrow>
          c0 = CHR ''0'' \<and> c1 = CHR ''x'' \<and> length rest = 40 \<and> list_all isHexDigit rest
      | _ \<Rightarrow> False)"

definition DEFAULT_VALIDITY_SECONDS :: int where
  "DEFAULT_VALIDITY_SECONDS = 3600"

text \<open>The three chain objects of \<open>viem/chains\<close> that the signer imports, with their ids.\<close>

datatype Chain = Mainnet | Base | BaseSepolia

fun viemId :: "Chain \<Rightarrow> int" where
  "viemId Mainnet = 1"
| "viemId Base = 8453"
| "viemId BaseSepolia = 84532"

definition CHAINS :: "(string \<times> Chain) list" where
  "CHAINS = [(''eip155:1'', Mainnet), (''eip155:8453'', Base), (''eip155:84532'', BaseSepolia)]"

text \<open>
  \<open>CHAINS\<close> is an object literal, so \<open>CHAINS[network]\<close> also finds the members it
  inherits from \<open>Object.prototype\<close>. None of them is \<open>null\<close> or \<open>undefined\<close>, so \<open>??\<close>
  keeps them; none has an \<open>id\<close>.
\<close>

definition objectPrototypeMembers :: "string list" where
  "objectPrototypeMembers =
     [''constructor'', ''__defineGetter__'', ''__defineSetter__'', ''hasOwnProperty'',
      ''__lookupGetter__'', ''__lookupSetter__'', ''isPrototypeOf'', ''propertyIsEnumerable'',
      ''toString'', ''valueOf'', ''__proto__'', ''toLocaleString'']"

datatype chainValue = ViemChain Chain | Inherited string

fun chain_id :: "chainValue \<Rightarrow> int option" where
  "chain_id (ViemChain c) = Some (viemId c)"
| "chain_id (Inherited _) = None"

definition asPrivateKey :: "string \<Rightarrow> error + string" where
  "asPrivateKey v =
     (if \<not> PRIVATE_KEY_REGEX v
      then Inl (Error ''X402_PRIVATE_KEY must be a 0x-prefixed 64-byte hex string'')
      else Inr v)"

definition asAddress :: "string \<Rightarrow> string \<Rightarrow> error + string" where
  "asAddress v field =
     (if \<not> ADDRESS_REGEX v
      then Inl (Error (field @ '' must be a 0x-prefixed 20-byte hex address''))
      else Inr v)"

definition resolveChain :: "string \<Rightarrow> chainValue" where
  "resolveChain net =
     (case map_of CHAINS net of
        Some c \<Rightarrow> ViemChain c
      | None \<Rightarrow> if net \<in> set objectPrototypeMembers then Inherited net else ViemChain Base)"

text \<open>\<open>const [, chainId] = network.split(":")\<close> takes the second component, \<open>undefined\<close>
  when there is none. The result is \<open>None\<close> when the fallback is \<open>undefined\<close> and is used.\<close>

definition resolveChainId :: "(int \<Rightarrow> int option) \<Rightarrow> string \<Rightarrow> int option \<Rightarrow> int option" where
  "resolveChainId rnd net fallback =
     (let chainId = (case split CHR '':'' net of _ # c # _ \<Rightarrow> Some c | _ \<Rightarrow> None);
          parsed = parseInt10 rnd (case chainId of Some c \<Rightarrow> c | None \<Rightarrow> [])
      in if Number_isFinite parsed then (case parsed of Num n \<Rightarrow> Some n | _ \<Rightarrow> fallback)
         else fallback)"

text \<open>
  What the signer takes from outside the repository: viem's account derivation, the
  \<open>readContract\<close> call of the public client, \<open>signTypedData\<close> of the wallet client, the
  clock, \<open>BigInt\<close>, and \<open>JSON.stringify\<close> followed by base64. Each call that may reject
  or throw returns a sum.
\<close>

record TypedData =
  domain_name :: string
  domain_version :: string
  domain_chainId :: "int option"
  domain_verifyingContract :: string
  primaryType :: string
  message_owner :: string
  message_spender :: string
  message_value :: int
  message_nonce :: nat
  message_deadline :: int

record PaymentPayload =
  x402Version :: nat
  accepted_scheme :: string
  accepted_network :: string
  accepted_asset :: string
  accepted_payTo :: string
  accepted_extra_name :: string
  accepted_extra_version :: string
  authorization_from :: string
  authorization_to :: string
  authorization_value :: string
  authorization_validBefore :: string
  authorization_nonce :: string
  signature :: string

record Platform =
  privateKeyToAccount :: "string \<Rightarrow> error + string"
  readContract :: "chainValue \<Rightarrow> string \<Rightarrow> string \<Rightarrow> error + nat"
  Date_now :: int
  BigInt :: "string \<Rightarrow> error + int"
  signTypedData :: "chainValue \<Rightarrow> string \<Rightarrow> TypedData \<Rightarrow> error + string"
  toBase64_JSON_stringify :: "PaymentPayload \<Rightarrow> string"
  rounding :: "int \<Rightarrow> int option"

text \<open>The calls that leave the process, in the order they are made.\<close>

datatype effect =
  ReadNonces chainValue string string
| SignTypedData chainValue string TypedData

definition fetchPermitNonce :: "Platform \<Rightarrow> chainValue \<Rightarrow> string \<Rightarrow> string \<Rightarrow> error + nat" where
  "fetchPermitNonce pf chain asset' owner = readContract pf chain asset' owner"

definition signPermitWithViem ::
  "Platform \<Rightarrow> SignPermitParams \<Rightarrow> effect list \<times> (error + CachedPermit)" where
  "signPermitWithViem pf params =
     (let rc = routerConfig params;
          chain = resolveChain (RouterConfig.network rc);
          chainId = resolveChainId (rounding pf) (RouterConfig.network rc) (chain_id chain)
      in case asPrivateKey (SignPermitParams.privateKey params) of
           Inl e \<Rightarrow> ([], Inl e)
         | Inr privateKey' \<Rightarrow>
        (case asAddress (RouterConfig.asset rc) ''routerConfig.asset'' of
           Inl e \<Rightarrow> ([], Inl e)
         | Inr asset' \<Rightarrow>
        (case asAddress (facilitatorSigner rc) ''routerConfig.facilitatorSigner'' of
           Inl e \<Rightarrow> ([], Inl e)
         | Inr facilitatorSigner' \<Rightarrow>
        (case privateKeyToAccount pf privateKey' of
           Inl e \<Rightarrow> ([], Inl e)
         | Inr account \<Rightarrow>
        (case fetchPermitNonce pf chain asset' account of
           Inl e \<Rightarrow> ([ReadNonces chain asset' account], Inl e)
         | Inr nonce' \<Rightarrow>
        (let deadline' = Date_now pf div 1000 + DEFAULT_VALIDITY_SECONDS in
         case BigInt pf (SignPermitParams.permitCap params) of
           Inl e \<Rightarrow> ([ReadNonces chain asset' account], Inl e)
         | Inr value \<Rightarrow>
        (let typed = \<lparr>domain_name = tokenName rc, domain_version = tokenVersion rc,
                      domain_chainId = chainId, domain_verifyingContract = asset',
                      primaryType = ''Permit'', message_owner = account,
                      message_spender = facilitatorSigner', message_value = value,
                      message_nonce = nonce', message_deadline = deadline'\<rparr>;
             calls = [ReadNonces chain asset' account, SignTypedData chain account typed]
         in case signTypedData pf chain account typed of
              Inl e \<Rightarrow> (calls, Inl e)
            | Inr signature' \<Rightarrow>
               (let paymentPayload =
                      \<lparr>x402Version = 2, accepted_scheme = ''upto'',
                       accepted_network = RouterConfig.network rc,
                       accepted_asset = RouterConfig.asset rc,
                       accepted_payTo = RouterConfig.payTo rc,
                       accepted_extra_name = tokenName rc,
                       accepted_extra_version = tokenVersion rc,
                       authorization_from = account, authorization_to = facilitatorSigner',
                       authorization_value = SignPermitParams.permitCap params,
                       authorization_validBefore = intString deadline',
                       authorization_nonce = decimalString nonce',
                       signature = signature'\<rparr>
                in (calls,
                    Inr \<lparr>paymentSig = toBase64_JSON_stringify pf paymentPayload,
                         deadline = deadline', maxValue = SignPermitParams.permitCap params,
                         nonce = decimalString nonce',
                         CachedPermit.network = RouterConfig.network rc,
                         asset = RouterConfig.asset rc,
                         payTo = RouterConfig.payTo rc\<rparr>)))))))))"

definition createPermitSigner ::
  "Platform \<Rightarrow> SignPermitParams \<Rightarrow> effect list \<times> (error + CachedPermit)" where
  "createPermitSigner = signPermitWithViem"

section \<open>Environment configuration (env.ts)\<close>

definition env_PRIVATE_KEY_REGEX :: "string \<Rightarrow> bool" where
  "env_PRIVATE_KEY_REGEX v =
     (case v of
        c0 # c1 # rest \<Rightarrow>
          c0 = CHR ''0'' \<and> (c1 = CHR ''x'' \<or> c1 = CHR ''X'') \<and> length rest = 64 \<and>
          list_all isHexDigit rest
      | _ \<Rightarrow> False)"

definition POSITIVE_INTEGER_REGEX :: "string \<Rightarrow> bool" where
  "POSITIVE_INTEGER_REGEX v =
     (case v of c # rest \<Rightarrow> c \<in> set ''123456789'' \<and> list_all isDecimalDigit rest | [] \<Rightarrow> False)"

definition DEFAULT_ROUTER_URL :: string where "DEFAULT_ROUTER_URL = ''http://localhost:8080''"
definition DEFAULT_NETWORK :: string where "DEFAULT_NETWORK = ''eip155:8453''"
definition DEFAULT_PERMIT_CAP :: string where "DEFAULT_PERMIT_CAP = ''10000000''"
definition DEFAULT_PAYMENT_HEADER :: string where "DEFAULT_PAYMENT_HEADER = ''PAYMENT-SIGNATURE''"
definition DEFAULT_MODEL_ID :: string where "DEFAULT_MODEL_ID = ''kimi-k2.5''"
definition DEFAULT_MODEL_NAME :: string where "DEFAULT_MODEL_NAME = ''Kimi K2.5''"

type_synonym EnvSource = "string \<Rightarrow> string option"

definition readTrimmed :: "EnvSource \<Rightarrow> string \<Rightarrow> string option" where
  "readTrimmed env key =
     (case env key of
        None \<Rightarrow> None
      | Some v \<Rightarrow> (let trimmed = trim v in if length trimmed > 0 then Some trimmed else None))"

definition normalizePrivateKey :: "string \<Rightarrow> error + string" where
  "normalizePrivateKey pk =
     (if \<not> env_PRIVATE_KEY_REGEX pk
      then Inl (Error ''X402_PRIVATE_KEY must be a 0x-prefixed 64-byte hex string'')
      else Inr (if take 2 pk = ''0X'' then ''0x'' @ drop 2 pk else pk))"

text \<open>
  The platform's \<open>URL\<close> class. Parsing a string is the platform's and is a parameter
  (\<open>None\<close>: the constructor throws); a parsed URL is the record of its components, with
  the scheme in lower case and without the colon, and a default port already removed.
  The \<open>origin\<close> getter is computed from the record: a tuple origin for the schemes that
  have one, the origin of the inner URL for a \<open>blob:\<close> URL over http(s), and the opaque
  origin, which serialises as \<open>null\<close>, for everything else.
\<close>

record URL =
  scheme :: string
  username :: string
  password :: string
  host :: string
  port :: "nat option"
  path :: string
  query :: "string option"
  fragment :: "string option"

type_synonym URLParser = "string \<Rightarrow> URL option"

definition tupleOrigin :: "URL \<Rightarrow> string" where
  "tupleOrigin u =
     scheme u @ ''://'' @ host u @ (case port u of None \<Rightarrow> [] | Some p \<Rightarrow> '':'' @ decimalString p)"

definition origin :: "URLParser \<Rightarrow> URL \<Rightarrow> string" where
  "origin parse u =
     (if scheme u = ''blob'' then
        (case parse (path u) of
           Some inner \<Rightarrow>
             if scheme inner \<in> set [''http'', ''https''] then tupleOrigin inner else ''null''
         | None \<Rightarrow> ''null'')
      else if scheme u \<in> set [''ftp'', ''http'', ''https'', ''ws'', ''wss''] then tupleOrigin u
      else ''null'')"

definition normalizeRouterUrl :: "URLParser \<Rightarrow> string \<Rightarrow> error + string" where
  "normalizeRouterUrl parse url =
     (case parse url of
        None \<Rightarrow> Inl (Error ''X402_ROUTER_URL must be a valid URL'')
      | Some parsed \<Rightarrow> Inr (origin parse parsed))"

definition normalizePermitCap :: "string \<Rightarrow> error + string" where
  "normalizePermitCap cap =
     (if \<not> POSITIVE_INTEGER_REGEX cap
      then Inl (Error ''X402_PERMIT_CAP must be a positive integer string'')
      else Inr cap)"

definition orDefault :: "string option \<Rightarrow> string \<Rightarrow> string" where
  "orDefault v d = (case v of Some x \<Rightarrow> x | None \<Rightarrow> d)"

text \<open>The fields of the returned object are evaluated in the order they are written:
  private key, router URL, permit cap.\<close>

definition loadX402Env :: "URLParser \<Rightarrow> EnvSource \<Rightarrow> error + X402EnvConfig" where
  "loadX402Env parse env =
     (case readTrimmed env ''X402_PRIVATE_KEY'' of
        None \<Rightarrow> Inl (Error ''X402_PRIVATE_KEY is required'')
      | Some privateKeyRaw \<Rightarrow>
         (let routerUrlRaw = orDefault (readTrimmed env ''X402_ROUTER_URL'') DEFAULT_ROUTER_URL;
              permitCapRaw = orDefault (readTrimmed env ''X402_PERMIT_CAP'') DEFAULT_PERMIT_CAP;
              network' = orDefault (readTrimmed env ''X402_NETWORK'') DEFAULT_NETWORK;
              paymentHeader' =
                orDefault (readTrimmed env ''X402_PAYMENT_HEADER'') DEFAULT_PAYMENT_HEADER;
              modelId' = orDefault (readTrimmed env ''X402_MODEL_ID'') DEFAULT_MODEL_ID;
              modelName' = orDefault (readTrimmed env ''X402_MODEL_NAME'') DEFAULT_MODEL_NAME
          in case normalizePrivateKey privateKeyRaw of
               Inl e \<Rightarrow> Inl e
             | Inr privateKey' \<Rightarrow>
            (case normalizeRouterUrl parse routerUrlRaw of
               Inl e \<Rightarrow> Inl e
             | Inr routerUrl' \<Rightarrow>
            (case normalizePermitCap permitCapRaw of
               Inl e \<Rightarrow> Inl e
             | Inr permitCap' \<Rightarrow>
                 Inr \<lparr>X402EnvConfig.privateKey = privateKey', routerUrl = routerUrl',
                      network = network', permitCap = permitCap',
                      paymentHeader = paymentHeader', modelId = modelId',
                      modelName = modelName'\<rparr>))))"

section \<open>Provider extension (index.ts)\<close>

definition X402_API :: string where "X402_API = ''x402-openai-completions''"

definition endsWith :: "string \<Rightarrow> string \<Rightarrow> bool" where
  "endsWith s suffix = (length suffix \<le> length s \<and> drop (length s - length suffix) s = suffix)"

definition withV1Path :: "string \<Rightarrow> string" where
  "withV1Path origin' = (if endsWith origin' ''/'' then origin' @ ''v1'' else origin' @ ''/v1'')"

subsection \<open>createRouterConfigResolver\<close>

text \<open>
  The closure's variables \<open>cached\<close> and \<open>cachedAtMs\<close> are the state. A \<open>RouterConfig\<close>
  object is a reference into the list of objects allocated so far, so that handing out
  the same object again is visible. Outside the repository and taken as parameters:
  \<open>normalizeRouterConfig\<close> (router-config.ts; it is applied to the parsed body and the two
  defaults), the \<open>URL\<close> constructor with a base (\<open>None\<close>: it throws), one call of
  \<open>baseFetch\<close> with reading the body as JSON, and the clock.
\<close>

datatype json =
  JNull | JBool bool | JNumber int | JString string | JArray "json list"
| JObject "(string \<times> json) list"

datatype fetchOutcome =
  Rejects
| Responds bool "json option"

record ResolverOptions =
  routerUrl :: string
  network :: string
  paymentHeader :: string

record ResolverPlatform =
  normalizeRouterConfig :: "json \<Rightarrow> string \<Rightarrow> string \<Rightarrow> RouterConfig"
  newURL :: "string \<Rightarrow> string \<Rightarrow> string option"
  baseFetch :: "string \<Rightarrow> fetchOutcome"
  now :: int

record ResolverState =
  cached :: "nat option"
  cachedAtMs :: int
  objects :: "RouterConfig list"

definition CACHE_TTL_MS :: int where "CACHE_TTL_MS = 30000"

definition createRouterConfigResolver :: ResolverState where
  "createRouterConfigResolver = \<lparr>cached = None, cachedAtMs = 0, objects = []\<rparr>"

text \<open>One call of the returned function: the URLs fetched, the reference returned (or the
  throw), and the state afterwards.\<close>

definition resolveRouterConfig ::
  "ResolverOptions \<Rightarrow> ResolverPlatform \<Rightarrow> ResolverState \<Rightarrow>
     string list \<times> (error + nat) \<times> ResolverState" where
  "resolveRouterConfig options pf st =
     (case (if now pf - cachedAtMs st < CACHE_TTL_MS then cached st else None) of
        Some hit \<Rightarrow> ([], Inr hit, st)
      | None \<Rightarrow>
         (let fallback = length (objects st);
              st1 = st\<lparr>objects := objects st @
                      [normalizeRouterConfig pf (JObject [])
                         (ResolverOptions.network options)
                         (ResolverOptions.paymentHeader options)]\<rparr>
          in case newURL pf ''/v1/config'' (ResolverOptions.routerUrl options @ ''/'') of
               None \<Rightarrow> ([], Inl (Error ''Invalid URL''), st1)
             | Some configUrl \<Rightarrow>
                (case baseFetch pf configUrl of
                   Rejects \<Rightarrow>
                     ([configUrl], Inr fallback, st1\<lparr>cached := Some fallback, cachedAtMs := now pf\<rparr>)
                 | Responds ok body \<Rightarrow>
                     if \<not> ok then
                       ([configUrl], Inr fallback,
                        st1\<lparr>cached := Some fallback, cachedAtMs := now pf\<rparr>)
                     else
                      (case body of
                         None \<Rightarrow>
                           ([configUrl], Inr fallback,
                            st1\<lparr>cached := Some fallback, cachedAtMs := now pf\<rparr>)
                       | Some data \<Rightarrow>
                          (let config = length (objects st1);
                               st2 = st1\<lparr>objects := objects st1 @
                                       [normalizeRouterConfig pf data
                                          (ResolverOptions.network options)
                                          (ResolverOptions.paymentHeader options)]\<rparr>
                           in ([configUrl], Inr config,
                               st2\<lparr>cached := Some config, cachedAtMs := now pf\<rparr>))))))"

subsection \<open>createFetchPatcher\<close>










section \<open>Permit cache (cache.ts)\<close>

text \<open>
  Modelled from the spec: the \<open>PermitCache\<close> class of cache.ts, which index.ts imports and
  constructs, is not among the sources. An entry is the cached permit with the spend
  ledger of its key.
\<close>

record CacheEntry =
  permit :: CachedPermit
  spent :: nat

type_synonym PermitCache = "string \<Rightarrow> CacheEntry option"

text \<open>Modelled from the spec: \<open>maxValue\<close> is a base-unit integer written as a string; this
  reads it, and a string that is no decimal numeral has no value.\<close>

definition capValue :: "string \<Rightarrow> nat option" where
  "capValue v = (if v \<noteq> [] \<and> list_all isDecimalDigit v then Some (decimalValue v) else None)"

text \<open>Modelled from the spec: a cached permit is valid for reuse only while
  \<open>now < deadline\<close> and the spend attributed to it has not reached \<open>maxValue\<close>.\<close>

definition reusable :: "int \<Rightarrow> CacheEntry \<Rightarrow> bool" where
  "reusable now' e =
     (now' < deadline (permit e) \<and>
      (case capValue (maxValue (permit e)) of Some cap \<Rightarrow> spent e < cap | None \<Rightarrow> False))"

text \<open>
  Modelled from the spec: \<open>getPermit(key, signFn)\<close> of cache.ts. It returns the cached
  permit if it is reusable; otherwise it invokes \<open>signFn\<close>, replaces the entry and resets
  the ledger to zero. \<open>signFn\<close> is given by its outcome, which is looked at only when it
  is invoked; the first component of the result counts the invocations. A failed sign
  propagates and leaves the cache as it was.
\<close>

definition getPermit ::
  "int \<Rightarrow> string \<Rightarrow> (error + CachedPermit) \<Rightarrow> PermitCache \<Rightarrow>
     nat \<times> (error + CachedPermit) \<times> PermitCache" where
  "getPermit now' key signFn cache =
     (case (case cache key of Some e \<Rightarrow> if reusable now' e then Some e else None
            | None \<Rightarrow> None) of
        Some e \<Rightarrow> (0, Inr (permit e), cache)
      | None \<Rightarrow>
         (case signFn of
            Inl err \<Rightarrow> (1, Inl err, cache)
          | Inr fresh \<Rightarrow> (1, Inr fresh, cache(key \<mapsto> \<lparr>permit = fresh, spent = 0\<rparr>))))"

text \<open>Modelled from the spec: \<open>recordSpend(key, amount)\<close> of cache.ts increments the ledger
  of \<open>key\<close>.\<close>

definition recordSpend :: "string \<Rightarrow> nat \<Rightarrow> PermitCache \<Rightarrow> PermitCache" where
  "recordSpend key amount cache =
     (case cache key of
        Some e \<Rightarrow> cache(key \<mapsto> e\<lparr>spent := spent e + amount\<rparr>)
      | None \<Rightarrow> cache)"

text \<open>Modelled from the spec: the cache key \<open>network:asset:payTo\<close>.\<close>

definition permitKey :: "RouterConfig \<Rightarrow> string" where
  "permitKey rc =
     RouterConfig.network rc @ '':'' @ RouterConfig.asset rc @ '':'' @ RouterConfig.payTo rc"

section \<open>Provider registration (index.ts)\<close>

record ProviderConfig =
  baseUrl :: string
  apiKey :: string
  api :: string
  providerHeaders :: "(string \<times> string) list option"
  models :: "(string \<times> string) list"

text \<open>
  Of the options object that is handed to \<open>createX402Fetch\<close>, with the keys \<open>baseFetch\<close>,
  \<open>resolveRouterConfig\<close>, \<open>permitCache\<close>, \<open>permitCap\<close>, \<open>privateKey\<close>, \<open>routerUrl\<close> and
  \<open>signer\<close>, the three strings. The others are the objects constructed just before.
\<close>

record X402FetchOptions =
  permitCap :: string
  privateKey :: string
  routerUrl :: string

text \<open>What \<open>registerX402Provider\<close> constructs, in order, and what it registers.\<close>

datatype construction =
  CreatePermitSigner
| NewPermitCache
| CreateRouterConfigResolver ResolverOptions
| CreateX402Fetch X402FetchOptions
| CreateFetchPatcher
| RegisterProvider ProviderConfig

record Registration =
  provider :: ProviderConfig
  resolverOptions :: ResolverOptions
  fetchOptions :: X402FetchOptions

definition registerX402Provider ::
  "URLParser \<Rightarrow> EnvSource \<Rightarrow> construction list \<times> (error + Registration)" where
  "registerX402Provider parse envSource =
     (case loadX402Env parse envSource of
        Inl e \<Rightarrow> ([], Inl e)
      | Inr env \<Rightarrow>
         (let resolverOpts =
                \<lparr>ResolverOptions.routerUrl = X402EnvConfig.routerUrl env,
                 network = X402EnvConfig.network env,
                 paymentHeader = X402EnvConfig.paymentHeader env\<rparr>;
              fetchOpts =
                \<lparr>X402FetchOptions.permitCap = X402EnvConfig.permitCap env,
                 privateKey = X402EnvConfig.privateKey env,
                 routerUrl = X402EnvConfig.routerUrl env\<rparr>;
              staticPaymentSignature = map_option trim (envSource ''X402_PAYMENT_SIGNATURE'');
              headers' =
                (case staticPaymentSignature of
                   Some sg \<Rightarrow>
                     if length sg > 0 then Some [(X402EnvConfig.paymentHeader env, sg)] else None
                 | None \<Rightarrow> None);
              config =
                \<lparr>baseUrl = withV1Path (X402EnvConfig.routerUrl env),
                 apiKey = ''x402-placeholder'', api = X402_API,
                 providerHeaders = headers',
                 models = [(modelId env, modelName env)]\<rparr>
          in ([CreatePermitSigner, NewPermitCache, CreateRouterConfigResolver resolverOpts,
               CreateX402Fetch fetchOpts, CreateFetchPatcher, RegisterProvider config],
              Inr \<lparr>provider = config, resolverOptions = resolverOpts,
                   fetchOptions = fetchOpts\<rparr>)))"

section \<open>Vocabulary of the properties and sample inputs\<close>

text \<open>\<open>0x\<close> followed by exactly \<open>n\<close> hex digits.\<close>

definition hexPrefixed :: "nat \<Rightarrow> string \<Rightarrow> bool" where
  "hexPrefixed n v = (take 2 v = ''0x'' \<and> length v = n + 2 \<and> list_all isHexDigit (drop 2 v))"

text \<open>The inputs of the repository's signer test: the mocked viem answers with nonce 7,
  one fixed account and one fixed signature.\<close>

definition testPlatform :: Platform where
  "testPlatform =
     \<lparr>privateKeyToAccount = (\<lambda>_. Inr ''0x1111111111111111111111111111111111111111''),
      readContract = (\<lambda>_ _ _. Inr 7),
      Date_now = 1700000000123,
      BigInt = (\<lambda>s. Inr (int (decimalValue s))),
      signTypedData = (\<lambda>_ _ _. Inr ''0xsigned''),
      toBase64_JSON_stringify = (\<lambda>_. ''eyJ4NDAyVmVyc2lvbiI6Mn0=''),
      rounding = (\<lambda>_. None)\<rparr>"

definition testRouterConfig :: RouterConfig where
  "testRouterConfig =
     \<lparr>RouterConfig.network = ''eip155:8453'',
      asset = ''0x833589fCD6eDb6E08f4c7C32D4f71b54bdA02913'',
      payTo = ''0x2222222222222222222222222222222222222222'',
      facilitatorSigner = ''0x2222222222222222222222222222222222222222'',
      tokenName = ''USD Coin'', tokenVersion = ''2'',
      paymentHeader = ''PAYMENT-SIGNATURE''\<rparr>"

definition testParams :: SignPermitParams where
  "testParams =
     \<lparr>SignPermitParams.privateKey =
        ''0x1111111111111111111111111111111111111111111111111111111111111111'', permitCap = ''10000000'',
      routerConfig = testRouterConfig\<rparr>"

text \<open>The permit that the signer test expects for them, at the sample time.\<close>

definition testPermit :: CachedPermit where
  "testPermit =
     \<lparr>paymentSig = ''eyJ4NDAyVmVyc2lvbiI6Mn0='', deadline = 1700003600,
      maxValue = ''10000000'', nonce = ''7'', CachedPermit.network = ''eip155:8453'',
      asset = ''0x833589fCD6eDb6E08f4c7C32D4f71b54bdA02913'',
      payTo = ''0x2222222222222222222222222222222222222222''\<rparr>"


text \<open>A platform on which every integer beyond the exact range rounds to an infinity;
  the sample inputs never get there.\<close>

definition noRounding :: "int \<Rightarrow> int option" where
  "noRounding v = None"


text \<open>A positive decimal integer, as the specification says of the permit cap.\<close>

definition positiveDecimal :: "string \<Rightarrow> bool" where
  "positiveDecimal v = (v \<noteq> [] \<and> list_all isDecimalDigit v \<and> decimalValue v > 0)"

text \<open>The schemes whose URLs have a tuple origin.\<close>

definition tupleSchemes :: "string list" where
  "tupleSchemes = [''ftp'', ''http'', ''https'', ''ws'', ''wss'']"

text \<open>What the platform's URL parser returns for the URLs of the sample inputs; on
  every other string the sample parser throws.\<close>

definition sampleURLs :: "(string \<times> URL) list" where
  "sampleURLs =
     [(''http://localhost:8080'',
       \<lparr>scheme = ''http'', username = [], password = [], host = ''localhost'',
        port = Some 8080, path = ''/'', query = None, fragment = None\<rparr>),
      (''https://user@Router.Example:443/api/v2/?probe=1#top'',
       \<lparr>scheme = ''https'', username = ''user'', password = [], host = ''router.example'',
        port = None, path = ''/api/v2/'', query = Some ''probe=1'', fragment = Some ''top''\<rparr>),
      (''file:///srv/router'',
       \<lparr>scheme = ''file'', username = [], password = [], host = [],
        port = None, path = ''/srv/router'', query = None, fragment = None\<rparr>)]"

definition sampleParser :: URLParser where
  "sampleParser = map_of sampleURLs"

definition sampleKey :: string where
  "sampleKey = ''0x1111111111111111111111111111111111111111111111111111111111111111''"

text \<open>The environment of the repository's tests: a valid key, and the named variables
  besides.\<close>

definition sampleEnv :: "(string \<times> string) list \<Rightarrow> EnvSource" where
  "sampleEnv vars = map_of ((''X402_PRIVATE_KEY'', sampleKey) # vars)"




text \<open>The URLs that the \<open>URL\<close> constructor builds from an input and a base in the sample
  runs. The base \<open>null/\<close> has no scheme, so with it the constructor throws.\<close>

definition sampleNewURL :: "string \<Rightarrow> string \<Rightarrow> string option" where
  "sampleNewURL input base =
     map_of [((''/v1/config'', ''http://localhost:8080/''), ''http://localhost:8080/v1/config''),
             ((''/v1/config'', ''https://router.example/''), ''https://router.example/v1/config'')]
       (input, base)"

text \<open>A stand-in for \<open>normalizeRouterConfig\<close> in the sample runs: the \<open>network\<close> string of
  the body if it has one, the defaults, and placeholders for the rest.\<close>

definition sampleNormalize :: "json \<Rightarrow> string \<Rightarrow> string \<Rightarrow> RouterConfig" where
  "sampleNormalize data net header =
     \<lparr>RouterConfig.network =
        (case data of
           JObject members \<Rightarrow>
             (case map_of members ''network'' of Some (JString n) \<Rightarrow> n | _ \<Rightarrow> net)
         | _ \<Rightarrow> net),
      asset = ''0x0000000000000000000000000000000000000000'',
      payTo = ''0x0000000000000000000000000000000000000000'',
      facilitatorSigner = ''0x0000000000000000000000000000000000000000'',
      tokenName = ''USD Coin'', tokenVersion = ''2'', paymentHeader = header\<rparr>"

text \<open>A router that cannot be reached, at a given time.\<close>

definition unreachableAt :: "int \<Rightarrow> ResolverPlatform" where
  "unreachableAt t =
     \<lparr>normalizeRouterConfig = sampleNormalize, newURL = sampleNewURL,
      ResolverPlatform.baseFetch = (\<lambda>u. Rejects), ResolverPlatform.now = t\<rparr>"

definition testKey :: string where
  "testKey = permitKey testRouterConfig"

text \<open>A cache that holds the sample permit with a given spend, and a permit signed
  an hour later.\<close>

definition cacheWith :: "nat \<Rightarrow> PermitCache" where
  "cacheWith n = Map.empty(testKey \<mapsto> \<lparr>permit = testPermit, spent = n\<rparr>)"

definition freshPermit :: CachedPermit where
  "freshPermit = testPermit\<lparr>deadline := 1700007200, nonce := ''8''\<rparr>"

section \<open>Properties of the permit signer\<close>

lemma PRIVATE_KEY_REGEX_iff: "PRIVATE_KEY_REGEX v = hexPrefixed 64 v"
  by (auto simp: PRIVATE_KEY_REGEX_def hexPrefixed_def split: list.splits)

lemma ADDRESS_REGEX_iff: "ADDRESS_REGEX v = hexPrefixed 40 v"
  by (auto simp: ADDRESS_REGEX_def hexPrefixed_def split: list.splits)

lemma digitValue_digitChar: "d < 10 \<Longrightarrow> digitValue (digitChar d) = d"
proof -
  assume "d < 10"
  then have "d \<in> {0, 1, 2, 3, 4, 5, 6, 7, 8, 9}" by auto
  then show ?thesis by (auto simp: digitValue_def digitChar_def)
qed

lemma decimalValue_snoc: "decimalValue (ds @ [c]) = 10 * decimalValue ds + digitValue c"
  by (simp add: decimalValue_def)

lemma decimalValue_decimalString: "decimalValue (decimalString n) = n"
proof (induction n rule: decimalString.induct)
  case (1 n)
  show ?case
  proof (cases "n < 10")
    case True
    then show ?thesis by (simp add: decimalValue_def digitValue_digitChar)
  next
    case False
    with 1 have "decimalValue (decimalString (n div 10)) = n div 10" by simp
    with False show ?thesis
      by (subst decimalString.simps) (simp add: decimalValue_snoc digitValue_digitChar)
  qed
qed

lemmas sign_unfold = signPermitWithViem_def Let_def fetchPermitNonce_def sum.case prod.inject
  sum.inject sum.distinct simp_thms snd_conv fst_conv

lemma sign_key_rejected:
  "\<not> hexPrefixed 64 (SignPermitParams.privateKey params) \<Longrightarrow>
     signPermitWithViem pf params =
       ([], Inl (Error ''X402_PRIVATE_KEY must be a 0x-prefixed 64-byte hex string''))"
  by (simp add: signPermitWithViem_def asPrivateKey_def Let_def PRIVATE_KEY_REGEX_iff)

lemma sign_asset_rejected:
  "hexPrefixed 64 (SignPermitParams.privateKey params) \<Longrightarrow>
   \<not> hexPrefixed 40 (RouterConfig.asset (routerConfig params)) \<Longrightarrow>
     signPermitWithViem pf params =
       ([], Inl (Error ''routerConfig.asset must be a 0x-prefixed 20-byte hex address''))"
  by (simp add: signPermitWithViem_def asPrivateKey_def asAddress_def Let_def
      PRIVATE_KEY_REGEX_iff ADDRESS_REGEX_iff)

lemma sign_spender_rejected:
  "hexPrefixed 64 (SignPermitParams.privateKey params) \<Longrightarrow>
   hexPrefixed 40 (RouterConfig.asset (routerConfig params)) \<Longrightarrow>
   \<not> hexPrefixed 40 (facilitatorSigner (routerConfig params)) \<Longrightarrow>
     signPermitWithViem pf params =
       ([], Inl (Error ''routerConfig.facilitatorSigner must be a 0x-prefixed 20-byte hex address''))"
  by (simp add: signPermitWithViem_def asPrivateKey_def asAddress_def Let_def
      PRIVATE_KEY_REGEX_iff ADDRESS_REGEX_iff)

lemma sign_valid_failure:
  assumes k: "hexPrefixed 64 (SignPermitParams.privateKey params)"
      and a: "hexPrefixed 40 (RouterConfig.asset (routerConfig params))"
      and f: "hexPrefixed 40 (facilitatorSigner (routerConfig params))"
      and r: "snd (signPermitWithViem pf params) = Inl e"
  shows "privateKeyToAccount pf (SignPermitParams.privateKey params) = Inl e \<or>
         (\<exists>owner. readContract pf (resolveChain (RouterConfig.network (routerConfig params)))
                     (RouterConfig.asset (routerConfig params)) owner = Inl e) \<or>
         BigInt pf (SignPermitParams.permitCap params) = Inl e \<or>
         (\<exists>owner typed. signTypedData pf (resolveChain (RouterConfig.network (routerConfig params)))
                     owner typed = Inl e)"
proof -
  let ?rc = "routerConfig params"
  let ?chain = "resolveChain (RouterConfig.network ?rc)"
  have k': "asPrivateKey (SignPermitParams.privateKey params) = Inr (SignPermitParams.privateKey params)"
    using k by (simp add: asPrivateKey_def PRIVATE_KEY_REGEX_iff)
  have a': "asAddress (RouterConfig.asset ?rc) ''routerConfig.asset'' = Inr (RouterConfig.asset ?rc)"
    using a by (simp add: asAddress_def ADDRESS_REGEX_iff)
  have f': "asAddress (facilitatorSigner ?rc) ''routerConfig.facilitatorSigner'' = Inr (facilitatorSigner ?rc)"
    using f by (simp add: asAddress_def ADDRESS_REGEX_iff)
  show ?thesis
  proof (cases "privateKeyToAccount pf (SignPermitParams.privateKey params)")
    case (Inl x)
    with r k' a' f' have "x = e" by (simp only: sign_unfold)
    with Inl show ?thesis by simp
  next
    case o: (Inr owner)
    show ?thesis
    proof (cases "readContract pf ?chain (RouterConfig.asset ?rc) owner")
      case (Inl x)
      with r k' a' f' o have "x = e" by (simp only: sign_unfold)
      with Inl show ?thesis by blast
    next
      case n: (Inr n)
      show ?thesis
      proof (cases "BigInt pf (SignPermitParams.permitCap params)")
        case (Inl x)
        with r k' a' f' o n have "x = e" by (simp only: sign_unfold)
        with Inl show ?thesis by simp
      next
        case v: (Inr v)
        let ?typed = "\<lparr>domain_name = tokenName ?rc, domain_version = tokenVersion ?rc,
          domain_chainId = resolveChainId (rounding pf) (RouterConfig.network ?rc) (chain_id ?chain),
          domain_verifyingContract = RouterConfig.asset ?rc, primaryType = ''Permit'',
          message_owner = owner, message_spender = facilitatorSigner ?rc, message_value = v,
          message_nonce = n,
          message_deadline = Date_now pf div 1000 + DEFAULT_VALIDITY_SECONDS\<rparr>"
        show ?thesis
        proof (cases "signTypedData pf ?chain owner ?typed")
          case (Inl x)
          with r k' a' f' o n v have "x = e" by (simp only: sign_unfold)
          with Inl show ?thesis by blast
        next
          case (Inr sg)
          with r k' a' f' o n v have False by (simp only: sign_unfold)
          then show ?thesis ..
        qed
      qed
    qed
  qed
qed

text \<open>
  Claim C7. The signer rejects, before any chain read or signing, an input whose private
  key is not \<open>0x\<close> followed by 64 hex digits, or whose \<open>routerConfig.asset\<close> or
  \<open>routerConfig.facilitatorSigner\<close> is not \<open>0x\<close> followed by 40 hex digits: no outside call
  is made and the error message names the field. When the three checks pass they raise
  nothing, and an error of the signer is then one that an outside call returned.
\<close>

theorem signer_rejects_malformed_input:
  fixes pf :: Platform and params :: SignPermitParams
  defines "rc \<equiv> routerConfig params"
  shows
   "(\<not> hexPrefixed 64 (SignPermitParams.privateKey params) \<longrightarrow>
       signPermitWithViem pf params =
         ([], Inl (Error ''X402_PRIVATE_KEY must be a 0x-prefixed 64-byte hex string''))) \<and>
    (hexPrefixed 64 (SignPermitParams.privateKey params) \<and>
     \<not> hexPrefixed 40 (RouterConfig.asset rc) \<longrightarrow>
       signPermitWithViem pf params =
         ([], Inl (Error ''routerConfig.asset must be a 0x-prefixed 20-byte hex address''))) \<and>
    (hexPrefixed 64 (SignPermitParams.privateKey params) \<and> hexPrefixed 40 (RouterConfig.asset rc) \<and>
     \<not> hexPrefixed 40 (facilitatorSigner rc) \<longrightarrow>
       signPermitWithViem pf params =
         ([], Inl (Error
            ''routerConfig.facilitatorSigner must be a 0x-prefixed 20-byte hex address''))) \<and>
    (hexPrefixed 64 (SignPermitParams.privateKey params) \<and> hexPrefixed 40 (RouterConfig.asset rc) \<and>
     hexPrefixed 40 (facilitatorSigner rc) \<longrightarrow>
       asPrivateKey (SignPermitParams.privateKey params) = Inr (SignPermitParams.privateKey params) \<and>
       asAddress (RouterConfig.asset rc) ''routerConfig.asset'' = Inr (RouterConfig.asset rc) \<and>
       asAddress (facilitatorSigner rc) ''routerConfig.facilitatorSigner'' =
         Inr (facilitatorSigner rc) \<and>
       (\<forall>e. snd (signPermitWithViem pf params) = Inl e \<longrightarrow>
          privateKeyToAccount pf (SignPermitParams.privateKey params) = Inl e \<or>
          (\<exists>owner. readContract pf (resolveChain (RouterConfig.network rc))
                      (RouterConfig.asset rc) owner = Inl e) \<or>
          BigInt pf (SignPermitParams.permitCap params) = Inl e \<or>
          (\<exists>owner typed. signTypedData pf (resolveChain (RouterConfig.network rc))
                      owner typed = Inl e)))"
proof (intro conjI impI allI)
  assume "\<not> hexPrefixed 64 (SignPermitParams.privateKey params)"
  then show "signPermitWithViem pf params =
         ([], Inl (Error ''X402_PRIVATE_KEY must be a 0x-prefixed 64-byte hex string''))"
    by (rule sign_key_rejected)
next
  assume "hexPrefixed 64 (SignPermitParams.privateKey params) \<and>
     \<not> hexPrefixed 40 (RouterConfig.asset rc)"
  then show "signPermitWithViem pf params =
         ([], Inl (Error ''routerConfig.asset must be a 0x-prefixed 20-byte hex address''))"
    unfolding rc_def by (blast intro: sign_asset_rejected)
next
  assume "hexPrefixed 64 (SignPermitParams.privateKey params) \<and> hexPrefixed 40 (RouterConfig.asset rc) \<and>
     \<not> hexPrefixed 40 (facilitatorSigner rc)"
  then show "signPermitWithViem pf params =
         ([], Inl (Error
            ''routerConfig.facilitatorSigner must be a 0x-prefixed 20-byte hex address''))"
    unfolding rc_def by (blast intro: sign_spender_rejected)
next
  assume v: "hexPrefixed 64 (SignPermitParams.privateKey params) \<and> hexPrefixed 40 (RouterConfig.asset rc) \<and>
     hexPrefixed 40 (facilitatorSigner rc)"
  then show "asPrivateKey (SignPermitParams.privateKey params) = Inr (SignPermitParams.privateKey params)"
    by (simp add: asPrivateKey_def PRIVATE_KEY_REGEX_iff)
  from v show "asAddress (RouterConfig.asset rc) ''routerConfig.asset'' = Inr (RouterConfig.asset rc)"
    by (simp add: asAddress_def ADDRESS_REGEX_iff)
  from v show "asAddress (facilitatorSigner rc) ''routerConfig.facilitatorSigner'' =
         Inr (facilitatorSigner rc)"
    by (simp add: asAddress_def ADDRESS_REGEX_iff)
  fix e assume "snd (signPermitWithViem pf params) = Inl e"
  with v show "privateKeyToAccount pf (SignPermitParams.privateKey params) = Inl e \<or>
          (\<exists>owner. readContract pf (resolveChain (RouterConfig.network rc))
                      (RouterConfig.asset rc) owner = Inl e) \<or>
          BigInt pf (SignPermitParams.permitCap params) = Inl e \<or>
          (\<exists>owner typed. signTypedData pf (resolveChain (RouterConfig.network rc))
                      owner typed = Inl e)"
    unfolding rc_def using sign_valid_failure [of params pf e] by blast
qed

theorem signer_rejects_malformed_input_witness:
  "signPermitWithViem testPlatform (testParams\<lparr>SignPermitParams.privateKey := ''not-a-key''\<rparr>) =
     ([], Inl (Error ''X402_PRIVATE_KEY must be a 0x-prefixed 64-byte hex string'')) \<and>
   signPermitWithViem testPlatform
       (testParams\<lparr>routerConfig := testRouterConfig\<lparr>RouterConfig.asset := ''not-an-address''\<rparr>\<rparr>) =
     ([], Inl (Error ''routerConfig.asset must be a 0x-prefixed 20-byte hex address'')) \<and>
   signPermitWithViem testPlatform
       (testParams\<lparr>routerConfig := testRouterConfig\<lparr>facilitatorSigner := ''not-an-address''\<rparr>\<rparr>) =
     ([], Inl (Error ''routerConfig.facilitatorSigner must be a 0x-prefixed 20-byte hex address'')) \<and>
   asPrivateKey (SignPermitParams.privateKey testParams) = Inr (SignPermitParams.privateKey testParams) \<and>
   (\<forall>e. snd (signPermitWithViem testPlatform testParams) \<noteq> Inl e)"
  using
    signer_rejects_malformed_input
      [of "testParams\<lparr>SignPermitParams.privateKey := ''not-a-key''\<rparr>" testPlatform]
    signer_rejects_malformed_input
      [of "testParams\<lparr>routerConfig :=
             testRouterConfig\<lparr>RouterConfig.asset := ''not-an-address''\<rparr>\<rparr>" testPlatform]
    signer_rejects_malformed_input
      [of "testParams\<lparr>routerConfig :=
             testRouterConfig\<lparr>facilitatorSigner := ''not-an-address''\<rparr>\<rparr>" testPlatform]
    signer_rejects_malformed_input [of testParams testPlatform]
  by (simp add: testParams_def testRouterConfig_def testPlatform_def hexPrefixed_def
      isHexDigit_def list_all_iff)

lemma sign_success:
  assumes r: "snd (signPermitWithViem pf params) = Inr p"
  shows "\<exists>owner n.
           privateKeyToAccount pf (SignPermitParams.privateKey params) = Inr owner \<and>
           readContract pf (resolveChain (RouterConfig.network (routerConfig params)))
              (RouterConfig.asset (routerConfig params)) owner = Inr n \<and>
           (\<exists>sg. p = \<lparr>paymentSig = sg,
             deadline = Date_now pf div 1000 + 3600,
             maxValue = SignPermitParams.permitCap params,
             nonce = decimalString n,
             CachedPermit.network = RouterConfig.network (routerConfig params),
             asset = RouterConfig.asset (routerConfig params),
             payTo = RouterConfig.payTo (routerConfig params)\<rparr>)"
proof -
  let ?rc = "routerConfig params"
  let ?chain = "resolveChain (RouterConfig.network ?rc)"
  from r obtain k where k: "asPrivateKey (SignPermitParams.privateKey params) = Inr k"
    by (cases "asPrivateKey (SignPermitParams.privateKey params)") (simp_all only: sign_unfold)
  from r k obtain a where a: "asAddress (RouterConfig.asset ?rc) ''routerConfig.asset'' = Inr a"
    by (cases "asAddress (RouterConfig.asset ?rc) ''routerConfig.asset''")
       (simp_all only: sign_unfold)
  from r k a obtain f where
    f: "asAddress (facilitatorSigner ?rc) ''routerConfig.facilitatorSigner'' = Inr f"
    by (cases "asAddress (facilitatorSigner ?rc) ''routerConfig.facilitatorSigner''")
       (simp_all only: sign_unfold)
  from r k a f obtain owner where o: "privateKeyToAccount pf k = Inr owner"
    by (cases "privateKeyToAccount pf k") (simp_all only: sign_unfold)
  from r k a f o obtain n where n: "readContract pf ?chain a owner = Inr n"
    by (cases "readContract pf ?chain a owner") (simp_all only: sign_unfold)
  from r k a f o n obtain v where v: "BigInt pf (SignPermitParams.permitCap params) = Inr v"
    by (cases "BigInt pf (SignPermitParams.permitCap params)") (simp_all only: sign_unfold)
  have kk: "k = SignPermitParams.privateKey params"
    using k by (simp add: asPrivateKey_def split: if_splits)
  have aa: "a = RouterConfig.asset ?rc"
    using a by (simp add: asAddress_def split: if_splits)
  from r k a f o n v obtain sg where sg:
    "signTypedData pf ?chain owner
       \<lparr>domain_name = tokenName ?rc, domain_version = tokenVersion ?rc,
        domain_chainId = resolveChainId (rounding pf) (RouterConfig.network ?rc) (chain_id ?chain),
        domain_verifyingContract = a, primaryType = ''Permit'', message_owner = owner,
        message_spender = f, message_value = v, message_nonce = n,
        message_deadline = Date_now pf div 1000 + DEFAULT_VALIDITY_SECONDS\<rparr> = Inr sg"
    (is "?call = _")
    by (cases ?call) (simp_all only: sign_unfold)
  from r k a f o n v sg have
    "\<exists>ps. p = \<lparr>paymentSig = ps,
       deadline = Date_now pf div 1000 + 3600,
       maxValue = SignPermitParams.permitCap params,
       nonce = decimalString n, CachedPermit.network = RouterConfig.network ?rc,
       asset = RouterConfig.asset ?rc, payTo = RouterConfig.payTo ?rc\<rparr>"
    by (simp only: sign_unfold DEFAULT_VALIDITY_SECONDS_def) blast
  with o n kk aa show ?thesis by blast
qed

text \<open>
  Claim C8. On every successful sign the returned permit has \<open>deadline\<close> equal to the
  unix time in seconds plus 3600, \<open>maxValue\<close> equal to the \<open>permitCap\<close> string passed in,
  \<open>nonce\<close> equal to the decimal string of the value that the \<open>nonces\<close> view of the
  asset contract returns for the address derived from the key, and \<open>network\<close>,
  \<open>asset\<close> and \<open>payTo\<close> copied from the router config.
\<close>

theorem signed_permit_fields:
  assumes "snd (signPermitWithViem pf params) = Inr p"
  shows "deadline p = Date_now pf div 1000 + 3600 \<and>
         maxValue p = SignPermitParams.permitCap params \<and>
         (\<exists>owner n.
            privateKeyToAccount pf (SignPermitParams.privateKey params) = Inr owner \<and>
            readContract pf (resolveChain (RouterConfig.network (routerConfig params)))
              (RouterConfig.asset (routerConfig params)) owner = Inr n \<and>
            nonce p = decimalString n \<and> decimalValue (nonce p) = n) \<and>
         CachedPermit.network p = RouterConfig.network (routerConfig params) \<and>
         asset p = RouterConfig.asset (routerConfig params) \<and>
         payTo p = RouterConfig.payTo (routerConfig params)"
proof -
  from sign_success [OF assms] obtain owner n sg where
    o: "privateKeyToAccount pf (SignPermitParams.privateKey params) = Inr owner" and
    n: "readContract pf (resolveChain (RouterConfig.network (routerConfig params)))
              (RouterConfig.asset (routerConfig params)) owner = Inr n" and
    p: "p = \<lparr>paymentSig = sg,
             deadline = Date_now pf div 1000 + 3600,
             maxValue = SignPermitParams.permitCap params,
             nonce = decimalString n,
             CachedPermit.network = RouterConfig.network (routerConfig params),
             asset = RouterConfig.asset (routerConfig params),
             payTo = RouterConfig.payTo (routerConfig params)\<rparr>"
    by (elim exE conjE)
  have 1: "nonce p = decimalString n" by (simp only: p CachedPermit.select_convs)
  have 2: "decimalValue (nonce p) = n" by (simp only: 1 decimalValue_decimalString)
  have 3: "deadline p = Date_now pf div 1000 + 3600"
    "maxValue p = SignPermitParams.permitCap params"
    "CachedPermit.network p = RouterConfig.network (routerConfig params)"
    "asset p = RouterConfig.asset (routerConfig params)"
    "payTo p = RouterConfig.payTo (routerConfig params)"
    by (simp_all only: p CachedPermit.select_convs)
  from o n 1 2 have "\<exists>owner n.
            privateKeyToAccount pf (SignPermitParams.privateKey params) = Inr owner \<and>
            readContract pf (resolveChain (RouterConfig.network (routerConfig params)))
              (RouterConfig.asset (routerConfig params)) owner = Inr n \<and>
            nonce p = decimalString n \<and> decimalValue (nonce p) = n"
    by (intro exI conjI)
  with 3 show ?thesis by (intro conjI)
qed

lemma test_sign: "snd (signPermitWithViem testPlatform testParams) = Inr testPermit"
  by (simp add: signPermitWithViem_def testPlatform_def testParams_def testRouterConfig_def
      asPrivateKey_def asAddress_def PRIVATE_KEY_REGEX_iff ADDRESS_REGEX_iff hexPrefixed_def
      isHexDigit_def fetchPermitNonce_def DEFAULT_VALIDITY_SECONDS_def digitChar_def Let_def
      testPermit_def)

theorem signed_permit_fields_witness:
  "snd (signPermitWithViem testPlatform testParams) = Inr testPermit \<and>
   deadline testPermit = 1700003600 \<and> maxValue testPermit = ''10000000'' \<and>
   decimalValue (nonce testPermit) = 7 \<and>
   CachedPermit.network testPermit = ''eip155:8453''"
proof -
  from signed_permit_fields [OF test_sign]
  have "deadline testPermit = Date_now testPlatform div 1000 + 3600"
    and "maxValue testPermit = SignPermitParams.permitCap testParams"
    and "CachedPermit.network testPermit = RouterConfig.network (routerConfig testParams)"
    by simp_all
  then have "deadline testPermit = 1700003600" and "maxValue testPermit = ''10000000''"
    and "CachedPermit.network testPermit = ''eip155:8453''"
    by (simp_all add: testPlatform_def testParams_def testRouterConfig_def)
  moreover have "decimalValue (nonce testPermit) = 7"
    by (simp add: testPermit_def decimalValue_def digitValue_def)
  ultimately show ?thesis using test_sign by simp
qed

section \<open>Chain and chain id of the signer\<close>





















lemmas chainId_eval = resolveChainId_def parseInt10_def toNumber_def maxExact_def isWhiteSpace_def
  isDecimalDigit_def decimalValue_def digitValue_def Let_def







text \<open>A network string that names an inherited member is not looked at by the amended
  claim: the lookup returns the member, and the chain id is \<open>undefined\<close>.\<close>

lemma inherited_member_is_not_Base:
  "resolveChain ''constructor'' = Inherited ''constructor'' \<and>
   resolveChainId noRounding ''constructor'' (chain_id (resolveChain ''constructor'')) = None"
  by (simp add: chainId_eval resolveChain_def CHAINS_def objectPrototypeMembers_def)

section \<open>Properties of configuration loading\<close>

lemmas env_eval = loadX402Env_def readTrimmed_def trim_def isWhiteSpace_def orDefault_def
  normalizePrivateKey_def env_PRIVATE_KEY_REGEX_def isHexDigit_def normalizeRouterUrl_def
  normalizePermitCap_def POSITIVE_INTEGER_REGEX_def isDecimalDigit_def origin_def tupleOrigin_def
  sampleEnv_def sampleKey_def sampleParser_def sampleURLs_def DEFAULT_ROUTER_URL_def
  DEFAULT_PERMIT_CAP_def DEFAULT_NETWORK_def DEFAULT_PAYMENT_HEADER_def DEFAULT_MODEL_ID_def
  DEFAULT_MODEL_NAME_def Let_def

lemma decimal_fold_ge: "a \<le> foldl (\<lambda>a c. 10 * a + digitValue c) a ds"
proof (induction ds arbitrary: a)
  case Nil
  show ?case by simp
next
  case (Cons d ds)
  have "a \<le> 10 * a + digitValue d" by simp
  also have "\<dots> \<le> foldl (\<lambda>a c. 10 * a + digitValue c) (10 * a + digitValue d) ds"
    by (rule Cons.IH)
  finally show ?case by simp
qed

lemma regex_positiveDecimal:
  assumes "POSITIVE_INTEGER_REGEX v"
  shows "positiveDecimal v"
proof -
  from assms obtain c rest where v: "v = c # rest" and c: "c \<in> set ''123456789''"
    and rest: "list_all isDecimalDigit rest"
    by (auto simp: POSITIVE_INTEGER_REGEX_def split: list.splits)
  from c have d: "isDecimalDigit c" and pos: "0 < digitValue c"
    by (auto simp: isDecimalDigit_def digitValue_def)
  have "digitValue c \<le> decimalValue v"
    unfolding v decimalValue_def using decimal_fold_ge [of "digitValue c" rest] by simp
  with pos have "0 < decimalValue v" by simp
  with v d rest show ?thesis by (simp add: positiveDecimal_def)
qed

lemma loadX402Env_cap_error:
  assumes key: "env ''X402_PRIVATE_KEY'' = Some rawKey" "env_PRIVATE_KEY_REGEX (trim rawKey)"
      and url: "parse (orDefault (readTrimmed env ''X402_ROUTER_URL'') DEFAULT_ROUTER_URL) \<noteq> None"
      and cap: "env ''X402_PERMIT_CAP'' = Some rawCap" "trim rawCap \<noteq> []"
               "\<not> positiveDecimal (trim rawCap)"
  shows "loadX402Env parse env = Inl (Error ''X402_PERMIT_CAP must be a positive integer string'')"
proof -
  have "trim rawKey \<noteq> []" using key(2) by (auto simp: env_PRIVATE_KEY_REGEX_def)
  with key(1) have k: "readTrimmed env ''X402_PRIVATE_KEY'' = Some (trim rawKey)"
    by (simp add: readTrimmed_def Let_def)
  from key(2) obtain pk where pk: "normalizePrivateKey (trim rawKey) = Inr pk"
    by (simp add: normalizePrivateKey_def)
  from url obtain ru where
    ru: "normalizeRouterUrl parse (orDefault (readTrimmed env ''X402_ROUTER_URL'') DEFAULT_ROUTER_URL) = Inr ru"
    by (auto simp: normalizeRouterUrl_def)
  from cap have c: "orDefault (readTrimmed env ''X402_PERMIT_CAP'') DEFAULT_PERMIT_CAP = trim rawCap"
    by (simp add: readTrimmed_def Let_def orDefault_def)
  from cap(3) regex_positiveDecimal have "\<not> POSITIVE_INTEGER_REGEX (trim rawCap)" by blast
  then have n: "normalizePermitCap (trim rawCap) =
      Inl (Error ''X402_PERMIT_CAP must be a positive integer string'')"
    by (simp add: normalizePermitCap_def)
  show ?thesis
    unfolding loadX402Env_def Let_def k option.case pk ru c n sum.case ..
qed

lemma register_aborts:
  "loadX402Env parse env = Inl e \<Longrightarrow> registerX402Provider parse env = ([], Inl e)"
  by (simp add: registerX402Provider_def)

lemma loadX402Env_cap_default:
  assumes key: "env ''X402_PRIVATE_KEY'' = Some rawKey" "env_PRIVATE_KEY_REGEX (trim rawKey)"
      and url: "parse (orDefault (readTrimmed env ''X402_ROUTER_URL'') DEFAULT_ROUTER_URL) \<noteq> None"
      and cap: "env ''X402_PERMIT_CAP'' = None \<or>
                (\<exists>rawCap. env ''X402_PERMIT_CAP'' = Some rawCap \<and> trim rawCap = [])"
  shows "\<exists>cfg. loadX402Env parse env = Inr cfg \<and> X402EnvConfig.permitCap cfg = ''10000000''"
proof -
  have "trim rawKey \<noteq> []" using key(2) by (auto simp: env_PRIVATE_KEY_REGEX_def)
  with key(1) have k: "readTrimmed env ''X402_PRIVATE_KEY'' = Some (trim rawKey)"
    by (simp add: readTrimmed_def Let_def)
  from key(2) obtain pk where pk: "normalizePrivateKey (trim rawKey) = Inr pk"
    by (simp add: normalizePrivateKey_def)
  from url obtain ru where
    ru: "normalizeRouterUrl parse (orDefault (readTrimmed env ''X402_ROUTER_URL'') DEFAULT_ROUTER_URL) = Inr ru"
    by (auto simp: normalizeRouterUrl_def)
  from cap have "readTrimmed env ''X402_PERMIT_CAP'' = None"
    by (auto simp: readTrimmed_def Let_def)
  then have c: "orDefault (readTrimmed env ''X402_PERMIT_CAP'') DEFAULT_PERMIT_CAP = ''10000000''"
    by (simp add: orDefault_def DEFAULT_PERMIT_CAP_def)
  have n: "normalizePermitCap ''10000000'' = Inr ''10000000''"
    by (simp add: normalizePermitCap_def POSITIVE_INTEGER_REGEX_def isDecimalDigit_def)
  have "loadX402Env parse env =
      Inr \<lparr>X402EnvConfig.privateKey = pk, routerUrl = ru,
           network = orDefault (readTrimmed env ''X402_NETWORK'') DEFAULT_NETWORK,
           permitCap = ''10000000'',
           paymentHeader = orDefault (readTrimmed env ''X402_PAYMENT_HEADER'') DEFAULT_PAYMENT_HEADER,
           modelId = orDefault (readTrimmed env ''X402_MODEL_ID'') DEFAULT_MODEL_ID,
           modelName = orDefault (readTrimmed env ''X402_MODEL_NAME'') DEFAULT_MODEL_NAME\<rparr>"
    unfolding loadX402Env_def Let_def k option.case pk ru c n sum.case ..
  then show ?thesis by simp
qed

lemma register_constructs:
  "loadX402Env parse env = Inr cfg \<Longrightarrow>
     hd (fst (registerX402Provider parse env)) = CreatePermitSigner"
  by (simp add: registerX402Provider_def Let_def)

lemma sample_cap_env:
  "sampleEnv [(''X402_PERMIT_CAP'', cap)] ''X402_PRIVATE_KEY'' = Some sampleKey"
  "env_PRIVATE_KEY_REGEX (trim sampleKey)"
  "sampleParser (orDefault (readTrimmed (sampleEnv [(''X402_PERMIT_CAP'', cap)]) ''X402_ROUTER_URL'')
     DEFAULT_ROUTER_URL) \<noteq> None"
  "sampleEnv [(''X402_PERMIT_CAP'', cap)] ''X402_PERMIT_CAP'' = Some cap"
  "sampleEnv [] ''X402_PRIVATE_KEY'' = Some sampleKey"
  "sampleParser (orDefault (readTrimmed (sampleEnv []) ''X402_ROUTER_URL'')
     DEFAULT_ROUTER_URL) \<noteq> None"
  "sampleEnv [] ''X402_PERMIT_CAP'' = None"
  by (simp_all add: env_eval)

text \<open>
  Claim C9, as amended. For every environment whose private key and router URL pass
  their checks: if \<open>X402_PERMIT_CAP\<close>, once trimmed, is not empty and is not a positive
  decimal integer (as \<open>-1\<close>, \<open>0\<close> and a string with a non-digit are not), configuration
  loading fails with the error of the permit cap, and provider registration aborts before
  anything, the permit signer included, is constructed; if \<open>X402_PERMIT_CAP\<close> is unset,
  empty or all white space, configuration loading succeeds with the default cap
  \<open>10000000\<close>, and registration goes on to construct the permit signer.
\<close>

theorem permit_cap_rejected:
  assumes "env ''X402_PRIVATE_KEY'' = Some rawKey" and "env_PRIVATE_KEY_REGEX (trim rawKey)"
      and "parse (orDefault (readTrimmed env ''X402_ROUTER_URL'') DEFAULT_ROUTER_URL) \<noteq> None"
  shows "(\<forall>rawCap. env ''X402_PERMIT_CAP'' = Some rawCap \<and> trim rawCap \<noteq> [] \<and>
            \<not> positiveDecimal (trim rawCap) \<longrightarrow>
            loadX402Env parse env =
              Inl (Error ''X402_PERMIT_CAP must be a positive integer string'') \<and>
            registerX402Provider parse env =
              ([], Inl (Error ''X402_PERMIT_CAP must be a positive integer string''))) \<and>
         (env ''X402_PERMIT_CAP'' = None \<or>
          (\<exists>rawCap. env ''X402_PERMIT_CAP'' = Some rawCap \<and> trim rawCap = []) \<longrightarrow>
            (\<exists>cfg. loadX402Env parse env = Inr cfg \<and>
                   X402EnvConfig.permitCap cfg = ''10000000'' \<and>
                   hd (fst (registerX402Provider parse env)) = CreatePermitSigner))"
proof (intro conjI allI impI)
  fix rawCap
  assume "env ''X402_PERMIT_CAP'' = Some rawCap \<and> trim rawCap \<noteq> [] \<and>
            \<not> positiveDecimal (trim rawCap)"
  then have c: "env ''X402_PERMIT_CAP'' = Some rawCap" "trim rawCap \<noteq> []"
    "\<not> positiveDecimal (trim rawCap)"
    by blast+
  show l: "loadX402Env parse env = Inl (Error ''X402_PERMIT_CAP must be a positive integer string'')"
    using assms c by (rule loadX402Env_cap_error)
  then show "registerX402Provider parse env =
              ([], Inl (Error ''X402_PERMIT_CAP must be a positive integer string''))"
    by (rule register_aborts)
next
  assume "env ''X402_PERMIT_CAP'' = None \<or>
          (\<exists>rawCap. env ''X402_PERMIT_CAP'' = Some rawCap \<and> trim rawCap = [])"
  with assms obtain cfg where cfg: "loadX402Env parse env = Inr cfg"
    "X402EnvConfig.permitCap cfg = ''10000000''"
    using loadX402Env_cap_default [of env rawKey parse] by blast
  from cfg(1) have "hd (fst (registerX402Provider parse env)) = CreatePermitSigner"
    by (rule register_constructs)
  with cfg show "\<exists>cfg. loadX402Env parse env = Inr cfg \<and>
                   X402EnvConfig.permitCap cfg = ''10000000'' \<and>
                   hd (fst (registerX402Provider parse env)) = CreatePermitSigner"
    by blast
qed

theorem permit_cap_rejected_witness:
  "registerX402Provider sampleParser (sampleEnv [(''X402_PERMIT_CAP'', ''-1'')]) =
     ([], Inl (Error ''X402_PERMIT_CAP must be a positive integer string'')) \<and>
   registerX402Provider sampleParser (sampleEnv [(''X402_PERMIT_CAP'', ''0'')]) =
     ([], Inl (Error ''X402_PERMIT_CAP must be a positive integer string'')) \<and>
   registerX402Provider sampleParser (sampleEnv [(''X402_PERMIT_CAP'', '' ten '')]) =
     ([], Inl (Error ''X402_PERMIT_CAP must be a positive integer string'')) \<and>
   (\<exists>cfg. loadX402Env sampleParser (sampleEnv []) = Inr cfg \<and>
          X402EnvConfig.permitCap cfg = ''10000000'' \<and>
          hd (fst (registerX402Provider sampleParser (sampleEnv []))) = CreatePermitSigner) \<and>
   (\<exists>cfg. loadX402Env sampleParser (sampleEnv [(''X402_PERMIT_CAP'', ''   '')]) = Inr cfg \<and>
          X402EnvConfig.permitCap cfg = ''10000000'' \<and>
          hd (fst (registerX402Provider sampleParser
                     (sampleEnv [(''X402_PERMIT_CAP'', ''   '')]))) = CreatePermitSigner)"
proof -
  have 1: "trim ''-1'' \<noteq> [] \<and> \<not> positiveDecimal (trim ''-1'')"
    and 2: "trim ''0'' \<noteq> [] \<and> \<not> positiveDecimal (trim ''0'')"
    and 3: "trim '' ten '' \<noteq> [] \<and> \<not> positiveDecimal (trim '' ten '')"
    and 4: "trim ''   '' = []"
    by (simp_all add: trim_def isWhiteSpace_def positiveDecimal_def isDecimalDigit_def
        decimalValue_def digitValue_def)
  note a = permit_cap_rejected [of "sampleEnv [(''X402_PERMIT_CAP'', ''-1'')]" sampleKey sampleParser,
      THEN conjunct1, rule_format, of "''-1''", THEN conjunct2]
  note b = permit_cap_rejected [of "sampleEnv [(''X402_PERMIT_CAP'', ''0'')]" sampleKey sampleParser,
      THEN conjunct1, rule_format, of "''0''", THEN conjunct2]
  note c = permit_cap_rejected [of "sampleEnv [(''X402_PERMIT_CAP'', '' ten '')]" sampleKey
      sampleParser, THEN conjunct1, rule_format, of "'' ten ''", THEN conjunct2]
  note d = permit_cap_rejected [of "sampleEnv []" sampleKey sampleParser, THEN conjunct2]
  note e = permit_cap_rejected [of "sampleEnv [(''X402_PERMIT_CAP'', ''   '')]" sampleKey
      sampleParser, THEN conjunct2]
  have A: "registerX402Provider sampleParser (sampleEnv [(''X402_PERMIT_CAP'', ''-1'')]) =
     ([], Inl (Error ''X402_PERMIT_CAP must be a positive integer string''))"
    using a by (simp only: sample_cap_env 1 simp_thms)
  have B: "registerX402Provider sampleParser (sampleEnv [(''X402_PERMIT_CAP'', ''0'')]) =
     ([], Inl (Error ''X402_PERMIT_CAP must be a positive integer string''))"
    using b by (simp only: sample_cap_env 2 simp_thms)
  have C: "registerX402Provider sampleParser (sampleEnv [(''X402_PERMIT_CAP'', '' ten '')]) =
     ([], Inl (Error ''X402_PERMIT_CAP must be a positive integer string''))"
    using c by (simp only: sample_cap_env 3 simp_thms)
  have D: "\<exists>cfg. loadX402Env sampleParser (sampleEnv []) = Inr cfg \<and>
          X402EnvConfig.permitCap cfg = ''10000000'' \<and>
          hd (fst (registerX402Provider sampleParser (sampleEnv []))) = CreatePermitSigner"
    using d sample_cap_env(2,5,6,7) by blast
  have E: "\<exists>cfg. loadX402Env sampleParser (sampleEnv [(''X402_PERMIT_CAP'', ''   '')]) = Inr cfg \<and>
          X402EnvConfig.permitCap cfg = ''10000000'' \<and>
          hd (fst (registerX402Provider sampleParser
                     (sampleEnv [(''X402_PERMIT_CAP'', ''   '')]))) = CreatePermitSigner"
    using e sample_cap_env(1,3,4) [where cap = "''   ''"] sample_cap_env(2) 4 by blast
  from A B C D E show ?thesis by (intro conjI)
qed

text \<open>
  Claim C9 as the specification states it fails: the empty string is not a positive
  decimal integer, yet with \<open>X402_PERMIT_CAP\<close> empty the configuration loads, with the
  default cap, and the signer is constructed. \<open>readTrimmed\<close> takes an empty or blank
  value for an unset one.
\<close>

theorem permit_cap_empty_counterexample:
  "\<not> positiveDecimal [] \<and>
   map_sum id X402EnvConfig.permitCap
     (loadX402Env sampleParser (sampleEnv [(''X402_PERMIT_CAP'', [])])) = Inr ''10000000'' \<and>
   hd (fst (registerX402Provider sampleParser (sampleEnv [(''X402_PERMIT_CAP'', [])]))) =
     CreatePermitSigner"
  by (simp add: positiveDecimal_def registerX402Provider_def env_eval digitChar_def)

lemma origin_tuple: "scheme u \<in> set tupleSchemes \<Longrightarrow> origin parse u = tupleOrigin u"
  by (auto simp: origin_def tupleSchemes_def)

lemma origin_opaque:
  "scheme u \<notin> set tupleSchemes \<Longrightarrow> scheme u \<noteq> ''blob'' \<Longrightarrow> origin parse u = ''null''"
  by (simp add: origin_def tupleSchemes_def)

lemma normalizeRouterUrl_tuple:
  assumes "parse raw = Some u" and "scheme u \<in> set tupleSchemes"
  shows "normalizeRouterUrl parse raw = Inr (tupleOrigin u)"
  using assms by (simp add: normalizeRouterUrl_def origin_tuple)

lemma loadX402Env_routerUrl:
  assumes "loadX402Env parse env = Inr cfg"
  shows "normalizeRouterUrl parse
           (orDefault (readTrimmed env ''X402_ROUTER_URL'') DEFAULT_ROUTER_URL) =
         Inr (X402EnvConfig.routerUrl cfg)"
proof -
  let ?u = "normalizeRouterUrl parse
           (orDefault (readTrimmed env ''X402_ROUTER_URL'') DEFAULT_ROUTER_URL)"
  from assms obtain raw where raw: "readTrimmed env ''X402_PRIVATE_KEY'' = Some raw"
    by (cases "readTrimmed env ''X402_PRIVATE_KEY''") (simp_all add: loadX402Env_def)
  from assms raw obtain pk where pk: "normalizePrivateKey raw = Inr pk"
    by (cases "normalizePrivateKey raw") (simp_all add: loadX402Env_def Let_def)
  from assms raw pk obtain ru where ru: "?u = Inr ru"
    by (cases ?u) (simp_all add: loadX402Env_def Let_def)
  from assms raw pk ru obtain cap where
    "normalizePermitCap (orDefault (readTrimmed env ''X402_PERMIT_CAP'') DEFAULT_PERMIT_CAP) = Inr cap"
    by (cases "normalizePermitCap (orDefault (readTrimmed env ''X402_PERMIT_CAP'') DEFAULT_PERMIT_CAP)")
       (simp_all add: loadX402Env_def Let_def)
  with assms raw pk ru have "X402EnvConfig.routerUrl cfg = ru"
    by (auto simp add: loadX402Env_def Let_def)
  with ru show ?thesis by simp
qed

lemma register_wiring:
  assumes "loadX402Env parse env = Inr cfg"
  shows "\<exists>reg. snd (registerX402Provider parse env) = Inr reg \<and>
           baseUrl (provider reg) = withV1Path (X402EnvConfig.routerUrl cfg) \<and>
           ResolverOptions.routerUrl (resolverOptions reg) = X402EnvConfig.routerUrl cfg"
  using assms by (simp add: registerX402Provider_def Let_def)

text \<open>
  Claim C10, as amended. Configuration loading replaces the router URL by its URL
  origin. For an http, https, ws, wss or ftp URL the origin is \<open>scheme://host[:port]\<close>
  and depends on nothing else, so credentials, path, query, fragment and a trailing slash
  are discarded; for a URL of another scheme, \<open>blob:\<close> apart, it is the string \<open>null\<close>. A
  value that does not parse as a URL fails with the error of the router URL. The
  registered \<open>baseUrl\<close> and the resolver's \<open>routerUrl\<close>, from which the config endpoint is
  built, are made from the origin.
\<close>

theorem router_url_origin:
  "(parse raw = None \<longrightarrow>
      normalizeRouterUrl parse raw = Inl (Error ''X402_ROUTER_URL must be a valid URL'')) \<and>
   (\<forall>u. parse raw = Some u \<and> scheme u \<in> set tupleSchemes \<longrightarrow>
      normalizeRouterUrl parse raw =
        Inr (scheme u @ ''://'' @ host u @
             (case port u of None \<Rightarrow> [] | Some p \<Rightarrow> '':'' @ decimalString p)) \<and>
      (\<forall>raw' u'. parse raw' = Some u' \<and> scheme u' = scheme u \<and> host u' = host u \<and>
          port u' = port u \<longrightarrow> normalizeRouterUrl parse raw' = normalizeRouterUrl parse raw)) \<and>
   (\<forall>u. parse raw = Some u \<and> scheme u \<notin> set tupleSchemes \<and> scheme u \<noteq> ''blob'' \<longrightarrow>
      normalizeRouterUrl parse raw = Inr ''null'') \<and>
   (\<forall>cfg. loadX402Env parse env = Inr cfg \<longrightarrow>
      normalizeRouterUrl parse
        (orDefault (readTrimmed env ''X402_ROUTER_URL'') DEFAULT_ROUTER_URL) =
        Inr (X402EnvConfig.routerUrl cfg) \<and>
      (\<exists>reg. snd (registerX402Provider parse env) = Inr reg \<and>
         baseUrl (provider reg) = withV1Path (X402EnvConfig.routerUrl cfg) \<and>
         ResolverOptions.routerUrl (resolverOptions reg) = X402EnvConfig.routerUrl cfg))"
proof (intro conjI impI allI)
  assume "parse raw = None"
  then show "normalizeRouterUrl parse raw = Inl (Error ''X402_ROUTER_URL must be a valid URL'')"
    by (simp add: normalizeRouterUrl_def)
next
  fix u assume u: "parse raw = Some u \<and> scheme u \<in> set tupleSchemes"
  then show "normalizeRouterUrl parse raw =
        Inr (scheme u @ ''://'' @ host u @
             (case port u of None \<Rightarrow> [] | Some p \<Rightarrow> '':'' @ decimalString p))"
    using normalizeRouterUrl_tuple [of parse raw u] by (simp add: tupleOrigin_def)
  fix raw' u'
  assume "parse raw' = Some u' \<and> scheme u' = scheme u \<and> host u' = host u \<and> port u' = port u"
  with u have "normalizeRouterUrl parse raw' = Inr (tupleOrigin u')"
    and "tupleOrigin u' = tupleOrigin u"
    by (simp_all add: normalizeRouterUrl_tuple tupleOrigin_def)
  with u show "normalizeRouterUrl parse raw' = normalizeRouterUrl parse raw"
    by (simp add: normalizeRouterUrl_tuple)
next
  fix u assume "parse raw = Some u \<and> scheme u \<notin> set tupleSchemes \<and> scheme u \<noteq> ''blob''"
  then show "normalizeRouterUrl parse raw = Inr ''null''"
    by (simp add: normalizeRouterUrl_def origin_opaque)
next
  fix cfg assume c: "loadX402Env parse env = Inr cfg"
  then show "normalizeRouterUrl parse
        (orDefault (readTrimmed env ''X402_ROUTER_URL'') DEFAULT_ROUTER_URL) =
        Inr (X402EnvConfig.routerUrl cfg)"
    by (rule loadX402Env_routerUrl)
  from c show "\<exists>reg. snd (registerX402Provider parse env) = Inr reg \<and>
         baseUrl (provider reg) = withV1Path (X402EnvConfig.routerUrl cfg) \<and>
         ResolverOptions.routerUrl (resolverOptions reg) = X402EnvConfig.routerUrl cfg"
    by (rule register_wiring)
qed

theorem router_url_origin_witness:
  "normalizeRouterUrl sampleParser ''https://user@Router.Example:443/api/v2/?probe=1#top'' =
     Inr ''https://router.example'' \<and>
   normalizeRouterUrl sampleParser ''http://localhost:8080'' = Inr ''http://localhost:8080'' \<and>
   normalizeRouterUrl sampleParser ''not a url'' =
     Inl (Error ''X402_ROUTER_URL must be a valid URL'') \<and>
   normalizeRouterUrl sampleParser ''file:///srv/router'' = Inr ''null''"
proof -
  note a = router_url_origin [of sampleParser
      "''https://user@Router.Example:443/api/v2/?probe=1#top''" "sampleEnv []",
      THEN conjunct2, THEN conjunct1, rule_format,
      of "\<lparr>scheme = ''https'', username = ''user'', password = [], host = ''router.example'',
        port = None, path = ''/api/v2/'', query = Some ''probe=1'', fragment = Some ''top''\<rparr>",
      THEN conjunct1]
  note b = router_url_origin [of sampleParser "''http://localhost:8080''" "sampleEnv []",
      THEN conjunct2, THEN conjunct1, rule_format,
      of "\<lparr>scheme = ''http'', username = [], password = [], host = ''localhost'',
        port = Some 8080, path = ''/'', query = None, fragment = None\<rparr>", THEN conjunct1]
  note c = router_url_origin [of sampleParser "''not a url''" "sampleEnv []",
      THEN conjunct1, rule_format]
  note d = router_url_origin [of sampleParser "''file:///srv/router''" "sampleEnv []",
      THEN conjunct2, THEN conjunct2, THEN conjunct1, rule_format,
      of "\<lparr>scheme = ''file'', username = [], password = [], host = [],
        port = None, path = ''/srv/router'', query = None, fragment = None\<rparr>"]
  have 1: "normalizeRouterUrl sampleParser ''https://user@Router.Example:443/api/v2/?probe=1#top'' =
     Inr ''https://router.example''"
    using a by (simp add: sampleParser_def sampleURLs_def tupleSchemes_def)
  have 2: "normalizeRouterUrl sampleParser ''http://localhost:8080'' = Inr ''http://localhost:8080''"
    using b by (simp add: sampleParser_def sampleURLs_def tupleSchemes_def digitChar_def)
  have 3: "normalizeRouterUrl sampleParser ''not a url'' =
     Inl (Error ''X402_ROUTER_URL must be a valid URL'')"
    using c by (simp add: sampleParser_def sampleURLs_def)
  have 4: "normalizeRouterUrl sampleParser ''file:///srv/router'' = Inr ''null''"
    using d by (simp add: sampleParser_def sampleURLs_def tupleSchemes_def)
  from 1 2 3 4 show ?thesis by (intro conjI)
qed

text \<open>
  Claim C10 as the specification states it fails: a \<open>file:\<close> URL parses, its origin is
  opaque, and the registered \<open>baseUrl\<close> is \<open>null/v1\<close>, which is not built from
  \<open>scheme://host[:port]\<close>.
\<close>

theorem router_url_opaque_counterexample:
  "normalizeRouterUrl sampleParser ''file:///srv/router'' = Inr ''null'' \<and>
   map_option tupleOrigin (sampleParser ''file:///srv/router'') = Some ''file://'' \<and>
   map_sum id (baseUrl \<circ> provider)
     (snd (registerX402Provider sampleParser
            (sampleEnv [(''X402_ROUTER_URL'', ''file:///srv/router'')]))) = Inr ''null/v1''"
  by (simp add: registerX402Provider_def env_eval withV1Path_def endsWith_def)

section \<open>Properties of the fetch patcher\<close>




















section \<open>Properties of the router config resolver\<close>

lemma resolver_hit:
  assumes "cached st = Some c" and "ResolverPlatform.now pf - cachedAtMs st < 30000"
  shows "resolveRouterConfig options pf st = ([], Inr c, st)"
  using assms by (simp add: resolveRouterConfig_def CACHE_TTL_MS_def)

lemma resolver_refetch:
  assumes "cached st = None \<or> \<not> ResolverPlatform.now pf - cachedAtMs st < 30000"
      and "newURL pf ''/v1/config'' (ResolverOptions.routerUrl options @ ''/'') = Some u"
  shows "fst (resolveRouterConfig options pf st) = [u]"
  using assms
  by (auto simp: resolveRouterConfig_def CACHE_TTL_MS_def Let_def
      split: option.splits fetchOutcome.splits)

lemma resolver_fallback:
  assumes "cached st = None \<or> \<not> ResolverPlatform.now pf - cachedAtMs st < 30000"
      and "newURL pf ''/v1/config'' (ResolverOptions.routerUrl options @ ''/'') = Some u"
      and "ResolverPlatform.baseFetch pf u = Rejects \<or>
           (\<exists>b. ResolverPlatform.baseFetch pf u = Responds False b) \<or>
           ResolverPlatform.baseFetch pf u = Responds True None"
  shows "resolveRouterConfig options pf st =
           ([u], Inr (length (objects st)),
            st\<lparr>objects := objects st @
                   [normalizeRouterConfig pf (JObject []) (ResolverOptions.network options)
                      (ResolverOptions.paymentHeader options)],
               cached := Some (length (objects st)),
               cachedAtMs := ResolverPlatform.now pf\<rparr>)"
  using assms
  by (auto simp: resolveRouterConfig_def CACHE_TTL_MS_def Let_def split: option.splits)

lemma resolver_success:
  assumes "cached st = None \<or> \<not> ResolverPlatform.now pf - cachedAtMs st < 30000"
      and "newURL pf ''/v1/config'' (ResolverOptions.routerUrl options @ ''/'') = Some u"
      and "ResolverPlatform.baseFetch pf u = Responds True (Some data)"
  shows "resolveRouterConfig options pf st =
           ([u], Inr (Suc (length (objects st))),
            st\<lparr>objects := objects st @
                   [normalizeRouterConfig pf (JObject []) (ResolverOptions.network options)
                      (ResolverOptions.paymentHeader options),
                    normalizeRouterConfig pf data (ResolverOptions.network options)
                      (ResolverOptions.paymentHeader options)],
               cached := Some (Suc (length (objects st))),
               cachedAtMs := ResolverPlatform.now pf\<rparr>)"
  using assms
  by (auto simp: resolveRouterConfig_def CACHE_TTL_MS_def Let_def split: option.splits)

lemma resolver_throws:
  assumes "cached st = None \<or> \<not> ResolverPlatform.now pf - cachedAtMs st < 30000"
      and "newURL pf ''/v1/config'' (ResolverOptions.routerUrl options @ ''/'') = None"
  shows "fst (resolveRouterConfig options pf st) = [] \<and>
         fst (snd (resolveRouterConfig options pf st)) = Inl (Error ''Invalid URL'')"
  using assms
  by (auto simp: resolveRouterConfig_def CACHE_TTL_MS_def Let_def split: option.splits)

text \<open>
  Claim C6, at an input where the code departs from it. The claim: a call within 30
  seconds of a cached value returns the cached object without fetching, a call after
  that re-fetches the config endpoint, and a non-2xx response or a network or parse
  failure makes the resolver return, and cache, the fallback config, never throwing. The
  lemmas above prove all of this whenever the config URL can be built. But the URL is
  built before the \<open>try\<close> block: with \<open>X402_ROUTER_URL\<close> set to a \<open>file:\<close> URL the registered
  resolver has \<open>routerUrl = null\<close>, and its first call throws, fetching nothing and
  caching nothing.
\<close>

theorem resolver_throws_on_opaque_origin:
  "map_sum id (ResolverOptions.routerUrl \<circ> resolverOptions)
     (snd (registerX402Provider sampleParser
            (sampleEnv [(''X402_ROUTER_URL'', ''file:///srv/router'')]))) = Inr ''null'' \<and>
   resolveRouterConfig
     \<lparr>ResolverOptions.routerUrl = ''null'', network = DEFAULT_NETWORK,
      paymentHeader = DEFAULT_PAYMENT_HEADER\<rparr>
     (unreachableAt 1000) createRouterConfigResolver =
     ([], Inl (Error ''Invalid URL''),
      \<lparr>cached = None, cachedAtMs = 0,
       objects = [sampleNormalize (JObject []) DEFAULT_NETWORK DEFAULT_PAYMENT_HEADER]\<rparr>)"
  by (simp add: registerX402Provider_def env_eval resolveRouterConfig_def
      createRouterConfigResolver_def unreachableAt_def sampleNewURL_def CACHE_TTL_MS_def)

section \<open>Properties of the permit cache\<close>

lemma getPermit_reuse:
  assumes "cache k = Some e" and "reusable t e"
  shows "getPermit t k signFn cache = (0, Inr (permit e), cache)"
  using assms by (simp add: getPermit_def)

lemma getPermit_sign:
  assumes "cache k = None \<or> (\<exists>e. cache k = Some e \<and> \<not> reusable t e)"
  shows "getPermit t k signFn cache =
           (1, signFn,
            case signFn of Inl err \<Rightarrow> cache
            | Inr fresh \<Rightarrow> cache(k \<mapsto> \<lparr>permit = fresh, spent = 0\<rparr>))"
  using assms by (auto simp: getPermit_def split: sum.splits)

lemma reusable_iff:
  "reusable t e \<longleftrightarrow>
     t < deadline (permit e) \<and> (\<exists>cap. capValue (maxValue (permit e)) = Some cap \<and> spent e < cap)"
  by (auto simp: reusable_def split: option.splits)

text \<open>
  Claim C3. For every cache, key and time: \<open>getPermit\<close> returns without signing only
  if the key has an entry whose permit has \<open>now < deadline\<close> and whose recorded spend is
  strictly below \<open>maxValue\<close>, and then it returns that permit and leaves the cache as it
  is. If the entry's deadline has passed or its spend has reached \<open>maxValue\<close>, \<open>signFn\<close> is
  invoked, what it yields is returned, and a fresh permit replaces the entry with the
  ledger at zero.
\<close>

theorem permit_reuse_policy:
  "(fst (getPermit t k signFn cache) = 0 \<longrightarrow>
      (\<exists>e cap. cache k = Some e \<and> t < deadline (permit e) \<and>
         capValue (maxValue (permit e)) = Some cap \<and> spent e < cap \<and>
         getPermit t k signFn cache = (0, Inr (permit e), cache))) \<and>
   (\<forall>e. cache k = Some e \<and>
      (deadline (permit e) \<le> t \<or>
       (\<exists>cap. capValue (maxValue (permit e)) = Some cap \<and> cap \<le> spent e)) \<longrightarrow>
      fst (getPermit t k signFn cache) = 1 \<and>
      fst (snd (getPermit t k signFn cache)) = signFn \<and>
      (\<forall>fresh. signFn = Inr fresh \<longrightarrow>
         snd (snd (getPermit t k signFn cache)) = cache(k \<mapsto> \<lparr>permit = fresh, spent = 0\<rparr>)))"
proof (intro conjI impI allI)
  assume z: "fst (getPermit t k signFn cache) = 0"
  show "\<exists>e cap. cache k = Some e \<and> t < deadline (permit e) \<and>
         capValue (maxValue (permit e)) = Some cap \<and> spent e < cap \<and>
         getPermit t k signFn cache = (0, Inr (permit e), cache)"
  proof (cases "cache k = None \<or> (\<exists>e. cache k = Some e \<and> \<not> reusable t e)")
    case True
    then have "fst (getPermit t k signFn cache) = 1"
      using getPermit_sign [of cache k t signFn] by simp
    with z show ?thesis by simp
  next
    case False
    then obtain e where e: "cache k = Some e" "reusable t e" by auto
    then show ?thesis
      using getPermit_reuse [of cache k e t signFn] by (auto simp: reusable_iff)
  qed
next
  fix e
  assume a: "cache k = Some e \<and>
      (deadline (permit e) \<le> t \<or>
       (\<exists>cap. capValue (maxValue (permit e)) = Some cap \<and> cap \<le> spent e))"
  then have "\<not> reusable t e" by (auto simp: reusable_iff)
  with a have s: "cache k = None \<or> (\<exists>e. cache k = Some e \<and> \<not> reusable t e)" by blast
  note gs = getPermit_sign [of cache k t signFn, OF s]
  show "fst (getPermit t k signFn cache) = 1" by (simp only: gs fst_conv)
  show "fst (snd (getPermit t k signFn cache)) = signFn"
    by (simp only: gs fst_conv snd_conv)
  fix fresh assume f: "signFn = Inr fresh"
  show "snd (snd (getPermit t k signFn cache)) = cache(k \<mapsto> \<lparr>permit = fresh, spent = 0\<rparr>)"
    unfolding gs unfolding f by simp
qed

lemmas cache_eval = cacheWith_def testKey_def permitKey_def testRouterConfig_def testPermit_def
  capValue_def isDecimalDigit_def decimalValue_def digitValue_def

theorem permit_reuse_policy_witness:
  "getPermit 1700000000 testKey (Inr freshPermit) (cacheWith 9999999) =
     (0, Inr testPermit, cacheWith 9999999) \<and>
   fst (snd (getPermit 1700003600 testKey (Inr freshPermit) (cacheWith 0))) = Inr freshPermit \<and>
   fst (snd (getPermit 1700000000 testKey (Inr freshPermit) (cacheWith 10000000))) =
     Inr freshPermit \<and>
   snd (snd (getPermit 1700000000 testKey (Inr freshPermit) (cacheWith 10000000))) testKey =
     Some \<lparr>permit = freshPermit, spent = 0\<rparr>"
proof -
  have 1: "getPermit 1700000000 testKey (Inr freshPermit) (cacheWith 9999999) =
     (0, Inr testPermit, cacheWith 9999999)"
    using permit_reuse_policy [of 1700000000 testKey "Inr freshPermit" "cacheWith 9999999",
        THEN conjunct1]
    by (auto simp: getPermit_def reusable_def cache_eval)
  note p = permit_reuse_policy [THEN conjunct2, rule_format]
  have 2: "fst (snd (getPermit 1700003600 testKey (Inr freshPermit) (cacheWith 0))) =
     Inr freshPermit"
    using p [of "cacheWith 0" testKey "\<lparr>permit = testPermit, spent = 0\<rparr>" 1700003600
        "Inr freshPermit"]
    by (simp add: cache_eval)
  note q = p [of "cacheWith 10000000" testKey "\<lparr>permit = testPermit, spent = 10000000\<rparr>"
        1700000000 "Inr freshPermit"]
  have 3: "fst (snd (getPermit 1700000000 testKey (Inr freshPermit) (cacheWith 10000000))) =
     Inr freshPermit"
    using q by (simp add: cache_eval)
  have 4: "snd (snd (getPermit 1700000000 testKey (Inr freshPermit) (cacheWith 10000000))) testKey =
     Some \<lparr>permit = freshPermit, spent = 0\<rparr>"
    using q by (simp add: cache_eval)
  from 1 2 3 4 show ?thesis by (intro conjI)
qed

end
